theory Spec2Isabelle
  imports Complex_Main
begin

section \<open>Python values used by the embed manager\<close>

text \<open>
  A Python \<open>str\<close> is a sequence of Unicode code points; \<open>len\<close> counts code points and
  slicing cuts between them. A string is therefore a list of code points (natural
  numbers), and the ASCII literals of the source are written \<open>ascii ''...''\<close>.
\<close>

type_synonym pystr = "nat list"

definition ascii :: "string \<Rightarrow> pystr" where
  "ascii s = map of_char s"

text \<open>The zero-width space (U+200B) that \<open>create_discord_embed\<close> puts in place of an empty label.\<close>

definition zwsp :: pystr where
  "zwsp = [8203]"

text \<open>\<open>str.isspace\<close> on one code point: the characters \<open>str.strip()\<close> removes.\<close>

definition isspace :: "nat \<Rightarrow> bool" where
  "isspace c \<longleftrightarrow>
     (9 \<le> c \<and> c \<le> 13) \<or> (28 \<le> c \<and> c \<le> 32) \<or> c = 133 \<or> c = 160 \<or> c = 5760 \<or>
     (8192 \<le> c \<and> c \<le> 8202) \<or> c = 8232 \<or> c = 8233 \<or> c = 8239 \<or> c = 8287 \<or> c = 12288"

definition strip :: "pystr \<Rightarrow> pystr" where
  "strip s = rev (dropWhile isspace (rev (dropWhile isspace s)))"

definition startswith :: "pystr \<Rightarrow> pystr \<Rightarrow> bool" where
  "startswith s p \<longleftrightarrow> take (length p) s = p"

datatype py_exc = ValueError | TypeError | OverflowError | IndexError | CallbackError

text \<open>
  The values \<open>json.loads\<close> returns. A float is a finite value, the negative zero
  \<open>-0.0\<close> (equal to \<open>0.0\<close>, printed differently), an infinity or NaN (\<open>json.loads\<close>
  yields \<open>inf\<close> for \<open>Infinity\<close> and for literals such as \<open>1e999\<close>).
\<close>

datatype pyfloat = Finite rat | NegZero | PosInf | NegInf | NaN

datatype json =
    JNull
  | JBool bool
  | JInt int
  | JFloat pyfloat
  | JStr pystr
  | JList "json list"
  | JDict "(pystr \<times> json) list"

text \<open>Truth value of a cell, as \<open>if row[i]\<close> and \<open>if not url\<close> test it.\<close>

fun truthy :: "json \<Rightarrow> bool" where
  "truthy JNull = False"
| "truthy (JBool b) = b"
| "truthy (JInt i) = (i \<noteq> 0)"
| "truthy (JFloat f) = (f \<noteq> Finite 0 \<and> f \<noteq> NegZero)"
| "truthy (JStr s) = (s \<noteq> [])"
| "truthy (JList xs) = (xs \<noteq> [])"
| "truthy (JDict kvs) = (kvs \<noteq> [])"

text \<open>
  The library functions the module calls and whose definitions are outside the
  repository are parameters of the model:
  \<^item> \<open>json_loads\<close> is \<open>json.loads\<close>, with \<open>None\<close> when it raises;
  \<^item> \<open>str_other\<close> is \<open>str\<close> on floats, lists and dicts (\<open>repr\<close> formatting);
  \<^item> \<open>int_of_str\<close> is \<open>int\<close> on a string, with \<open>None\<close> when it raises \<open>ValueError\<close>.
\<close>

record pylib =
  json_loads :: "pystr \<Rightarrow> json option"
  str_other :: "json \<Rightarrow> pystr"
  int_of_str :: "pystr \<Rightarrow> int option"

fun str_nat :: "nat \<Rightarrow> pystr" where
  "str_nat n = (if n < 10 then [48 + n] else str_nat (n div 10) @ [48 + n mod 10])"

declare str_nat.simps [simp del]

definition str_int :: "int \<Rightarrow> pystr" where
  "str_int i = (if i < 0 then 45 # str_nat (nat (- i)) else str_nat (nat i))"

text \<open>\<open>str(x)\<close> on a cell.\<close>

fun py_str :: "pylib \<Rightarrow> json \<Rightarrow> pystr" where
  "py_str L JNull = ascii ''None''"
| "py_str L (JBool b) = (if b then ascii ''True'' else ascii ''False'')"
| "py_str L (JInt i) = str_int i"
| "py_str L (JStr s) = s"
| "py_str L v = str_other L v"

text \<open>\<open>int(x)\<close> on a cell; floats truncate towards zero.\<close>

definition trunc :: "rat \<Rightarrow> int" where
  "trunc q = (if 0 \<le> q then \<lfloor>q\<rfloor> else \<lceil>q\<rceil>)"

fun py_int :: "pylib \<Rightarrow> json \<Rightarrow> py_exc + int" where
  "py_int L JNull = Inl TypeError"
| "py_int L (JBool b) = Inr (if b then 1 else 0)"
| "py_int L (JInt i) = Inr i"
| "py_int L (JFloat (Finite q)) = Inr (trunc q)"
| "py_int L (JFloat NegZero) = Inr 0"
| "py_int L (JFloat NaN) = Inl ValueError"
| "py_int L (JFloat PosInf) = Inl OverflowError"
| "py_int L (JFloat NegInf) = Inl OverflowError"
| "py_int L (JStr s) = (case int_of_str L s of None \<Rightarrow> Inl ValueError | Some i \<Rightarrow> Inr i)"
| "py_int L (JList xs) = Inl TypeError"
| "py_int L (JDict kvs) = Inl TypeError"

section \<open>Cell parser: \<open>parse_json_cell\<close>\<close>

text \<open>The loop \<open>for row in data: if not isinstance(row, list): return None\<close>.\<close>

fun check_rows :: "json list \<Rightarrow> json list list option" where
  "check_rows [] = Some []"
| "check_rows (JList row # rest) = map_option ((#) row) (check_rows rest)"
| "check_rows (v # rest) = None"

text \<open>
  \<open>parse_json_cell\<close>: every exception of \<open>json.loads\<close> is caught and gives \<open>None\<close>;
  the result is the decoded list of rows. Logging is not modelled.
\<close>

definition parse_json_cell :: "pylib \<Rightarrow> pystr \<Rightarrow> json list list option" where
  "parse_json_cell L cell_value =
     (case json_loads L cell_value of
        None \<Rightarrow> None
      | Some data \<Rightarrow>
          (case data of
             JList rows \<Rightarrow> check_rows rows
           | _ \<Rightarrow> None))"

text \<open>\<open>isinstance(v, list)\<close>, and the elements of a decoded list.\<close>

fun is_list :: "json \<Rightarrow> bool" where
  "is_list (JList xs) = True"
| "is_list v = False"

fun list_items :: "json \<Rightarrow> json list" where
  "list_items (JList xs) = xs"
| "list_items v = []"

subsection \<open>Syntactically valid JSON\<close>

text \<open>
  The specification speaks of a blob that is ``not syntactically valid''. \<open>valid_json\<close>
  is the grammar of JSON (RFC 8259) as a recogniser, to compare with what the decoder
  accepts.
\<close>

definition json_ws :: "nat \<Rightarrow> bool" where
  "json_ws c \<longleftrightarrow> c = 32 \<or> c = 9 \<or> c = 10 \<or> c = 13"

definition skip_ws :: "pystr \<Rightarrow> pystr" where
  "skip_ws s = dropWhile json_ws s"

definition is_digit :: "nat \<Rightarrow> bool" where
  "is_digit c \<longleftrightarrow> 48 \<le> c \<and> c \<le> 57"

definition is_hex :: "nat \<Rightarrow> bool" where
  "is_hex c \<longleftrightarrow> is_digit c \<or> (65 \<le> c \<and> c \<le> 70) \<or> (97 \<le> c \<and> c \<le> 102)"

text \<open>The rest of the text after a string whose opening quote has been read.\<close>

fun string_tail :: "pystr \<Rightarrow> pystr option" where
  "string_tail [] = None"
| "string_tail (c # cs) =
     (if c = 34 then Some cs
      else if c = 92 then
        (case cs of
           [] \<Rightarrow> None
         | e # es \<Rightarrow>
             if e \<in> set [34, 92, 47, 98, 102, 110, 114, 116] then string_tail es
             else if e = 117 \<and> 4 \<le> length es \<and> list_all is_hex (take 4 es) then string_tail es
             else None)
      else if c < 32 \<or> 1114111 < c then None
      else string_tail cs)"

text \<open>One or more digits; a number \<open>[-] int [frac] [exp]\<close> without leading zeros.\<close>

definition digits1 :: "pystr \<Rightarrow> pystr option" where
  "digits1 s = (case s of [] \<Rightarrow> None
                | d # ds \<Rightarrow> if is_digit d then Some (dropWhile is_digit ds) else None)"

definition number_tail :: "pystr \<Rightarrow> pystr option" where
  "number_tail s =
     (let s1 = (case s of [] \<Rightarrow> s | c # cs \<Rightarrow> if c = 45 then cs else s);
          int_part = (case s1 of [] \<Rightarrow> None
                      | d # ds \<Rightarrow> if d = 48 then Some ds else digits1 s1)
      in case int_part of
           None \<Rightarrow> None
         | Some s2 \<Rightarrow>
             (let frac_part = (case s2 of [] \<Rightarrow> Some s2
                               | c # cs \<Rightarrow> if c = 46 then digits1 cs else Some s2)
              in case frac_part of
                   None \<Rightarrow> None
                 | Some s3 \<Rightarrow>
                     (case s3 of
                        [] \<Rightarrow> Some s3
                      | c # cs \<Rightarrow>
                          if c = 101 \<or> c = 69 then
                            digits1 (case cs of [] \<Rightarrow> cs
                                     | g # gs \<Rightarrow> if g = 43 \<or> g = 45 then gs else cs)
                          else Some s3)))"

text \<open>
  A value, the elements of an array after \<open>[\<close> and the members of an object after \<open>{\<close>;
  each returns the rest of the text. The first argument bounds the number of nested calls.
\<close>

fun json_value :: "nat \<Rightarrow> pystr \<Rightarrow> pystr option"
  and json_elements :: "nat \<Rightarrow> pystr \<Rightarrow> pystr option"
  and json_members :: "nat \<Rightarrow> pystr \<Rightarrow> pystr option" where
  "json_value 0 s = None"
| "json_value (Suc n) s =
     (case skip_ws s of
        [] \<Rightarrow> None
      | c # cs \<Rightarrow>
          if c = 91 then
            (case skip_ws cs of
               [] \<Rightarrow> None
             | d # ds \<Rightarrow> if d = 93 then Some ds else json_elements n cs)
          else if c = 123 then
            (case skip_ws cs of
               [] \<Rightarrow> None
             | d # ds \<Rightarrow> if d = 125 then Some ds else json_members n cs)
          else if c = 34 then string_tail cs
          else if startswith (c # cs) (ascii ''true'') then Some (drop 4 (c # cs))
          else if startswith (c # cs) (ascii ''false'') then Some (drop 5 (c # cs))
          else if startswith (c # cs) (ascii ''null'') then Some (drop 4 (c # cs))
          else number_tail (c # cs))"
| "json_elements 0 s = None"
| "json_elements (Suc n) s =
     (case json_value n s of
        None \<Rightarrow> None
      | Some r \<Rightarrow>
          (case skip_ws r of
             [] \<Rightarrow> None
           | c # cs \<Rightarrow>
               if c = 44 then json_elements n cs
               else if c = 93 then Some cs
               else None))"
| "json_members 0 s = None"
| "json_members (Suc n) s =
     (case skip_ws s of
        [] \<Rightarrow> None
      | c # cs \<Rightarrow>
          if c \<noteq> 34 then None
          else
            (case string_tail cs of
               None \<Rightarrow> None
             | Some r \<Rightarrow>
                 (case skip_ws r of
                    [] \<Rightarrow> None
                  | d # ds \<Rightarrow>
                      if d \<noteq> 58 then None
                      else
                        (case json_value n ds of
                           None \<Rightarrow> None
                         | Some r2 \<Rightarrow>
                             (case skip_ws r2 of
                                [] \<Rightarrow> None
                              | e # es \<Rightarrow>
                                  if e = 44 then json_members n es
                                  else if e = 125 then Some es
                                  else None)))))"

text \<open>A JSON text is one value between optional white space.\<close>

definition valid_json :: "pystr \<Rightarrow> bool" where
  "valid_json s =
     (case json_value (2 * length s + 2) s of
        None \<Rightarrow> False
      | Some r \<Rightarrow> skip_ws r = [])"

section \<open>Tile builder: \<open>validate_url\<close> and \<open>parse_embed_data\<close>\<close>

text \<open>\<open>validate_url(url, field_name, row_idx)\<close>; Python's \<open>None\<close> argument is \<open>JNull\<close>.\<close>

definition validate_url :: "pylib \<Rightarrow> json \<Rightarrow> pystr option" where
  "validate_url L url =
     (if \<not> truthy url then None
      else let url_str = strip (py_str L url) in
        if url_str = [] then None
        else if \<not> (startswith url_str (ascii ''http://'') \<or> startswith url_str (ascii ''https://''))
          then None
        else Some url_str)"

record field_spec =
  field_name :: pystr
  field_value :: pystr

record embed_spec =
  title :: pystr
  description :: pystr
  title_url :: "pystr option"
  color :: int
  author :: "pystr option"
  author_url :: "pystr option"
  footer :: pystr
  embed_fields :: "field_spec list"

text \<open>
  The colour column: \<open>int(row[3]) if len(row) > 3 and row[3] else 0\<close> inside
  \<open>try ... except (ValueError, TypeError): color = 0\<close>. Any other exception of \<open>int\<close>
  leaves the function.
\<close>

definition row_color :: "pylib \<Rightarrow> json list \<Rightarrow> py_exc + int" where
  "row_color L row =
     (if length row > 3 \<and> truthy (row ! 3) then
        (case py_int L (row ! 3) of
           Inr i \<Rightarrow> Inr i
         | Inl ValueError \<Rightarrow> Inr 0
         | Inl TypeError \<Rightarrow> Inr 0
         | Inl e \<Rightarrow> Inl e)
      else Inr 0)"

text \<open>
  The inner loop \<open>for check_idx in range(name_idx, min(len(row), 57))\<close> that clears
  \<open>all_remaining_empty\<close> at the first truthy column.
\<close>

definition all_remaining_empty :: "json list \<Rightarrow> nat \<Rightarrow> bool" where
  "all_remaining_empty row name_idx =
     list_all (\<lambda>check_idx. \<not> truthy (row ! check_idx)) [name_idx ..< min (length row) 57]"

text \<open>
  One iteration of \<open>for field_idx in range(25)\<close>: either \<open>break\<close>, or the pair that is
  appended to \<open>fields\<close>.
\<close>

datatype step = Break | Append field_spec

definition field_step :: "pylib \<Rightarrow> json list \<Rightarrow> nat \<Rightarrow> nat \<Rightarrow> step" where
  "field_step L row field_idx total_chars =
     (let name_idx = 7 + field_idx * 2;
          value_idx = 8 + field_idx * 2
      in if name_idx \<ge> length row then Break
         else if all_remaining_empty row name_idx then Break
         else
           let name = (if name_idx < length row then py_str L (row ! name_idx) else []);
               val = (if value_idx < length row then py_str L (row ! value_idx) else []);
               name = take 256 name;
               val = take 1024 val;
               field_chars = length name + length val
           in if total_chars + field_chars > 6000 then Break
              else Append \<lparr>field_name = name, field_value = val\<rparr>)"

function fields_loop ::
  "pylib \<Rightarrow> json list \<Rightarrow> nat \<Rightarrow> nat \<Rightarrow> field_spec list \<Rightarrow> field_spec list" where
  "fields_loop L row field_idx total_chars fs =
     (if field_idx < 25 then
        (case field_step L row field_idx total_chars of
           Break \<Rightarrow> fs
         | Append f \<Rightarrow>
             fields_loop L row (Suc field_idx)
               (total_chars + (length (field_name f) + length (field_value f))) (fs @ [f]))
      else fs)"
  by pat_completeness auto
termination
  by (relation "measure (\<lambda>(L, row, field_idx, total_chars, fs). 25 - field_idx)") auto

declare fields_loop.simps [simp del]

text \<open>The body of \<open>for row_idx, row in enumerate(data)\<close> for a row that is not skipped.\<close>

definition row_embed :: "pylib \<Rightarrow> json list \<Rightarrow> py_exc + embed_spec" where
  "row_embed L row =
     (let t = (if length row > 0 then take 256 (py_str L (row ! 0)) else []);
          d = (if length row > 1 then take 4096 (py_str L (row ! 1)) else []);
          turl = validate_url L (if length row > 2 then row ! 2 else JNull)
      in case row_color L row of
           Inl e \<Rightarrow> Inl e
         | Inr c \<Rightarrow>
             let a = (if length row > 4 \<and> truthy (row ! 4)
                      then Some (take 256 (py_str L (row ! 4))) else None);
                 aurl = validate_url L (if length row > 5 then row ! 5 else JNull);
                 f = (if length row > 6 then take 2048 (py_str L (row ! 6)) else []);
                 total_chars = length t + length d + length f;
                 total_chars = (case a of
                                  None \<Rightarrow> total_chars
                                | Some s \<Rightarrow> if s \<noteq> [] then total_chars + length s
                                            else total_chars);
                 fs = fields_loop L row 0 total_chars []
             in Inr \<lparr>title = t, description = d, title_url = turl, color = c,
                      author = a, author_url = aurl, footer = f, embed_fields = fs\<rparr>)"

fun embeds_loop :: "pylib \<Rightarrow> json list list \<Rightarrow> embed_spec list \<Rightarrow> py_exc + embed_spec list" where
  "embeds_loop L [] embeds = Inr embeds"
| "embeds_loop L (row # rest) embeds =
     (if length row < 7 then embeds_loop L rest embeds
      else (case row_embed L row of
              Inl e \<Rightarrow> Inl e
            | Inr spec \<Rightarrow> embeds_loop L rest (embeds @ [spec])))"

definition parse_embed_data :: "pylib \<Rightarrow> json list list \<Rightarrow> py_exc + embed_spec list" where
  "parse_embed_data L data = (if data = [] then Inr [] else embeds_loop L data [])"

text \<open>
  The character total that Discord bounds by 6000: title, description, footer, author
  name and every field name and value.
\<close>

definition field_chars :: "field_spec \<Rightarrow> nat" where
  "field_chars f = length (field_name f) + length (field_value f)"

definition base_chars :: "embed_spec \<Rightarrow> nat" where
  "base_chars spec =
     length (title spec) + length (description spec) + length (footer spec) +
     (case author spec of None \<Rightarrow> 0 | Some s \<Rightarrow> length s)"

definition total_chars :: "embed_spec \<Rightarrow> nat" where
  "total_chars spec = base_chars spec + sum_list (map field_chars (embed_fields spec))"

section \<open>Tile renderer: \<open>create_discord_embed\<close>\<close>

text \<open>
  The part of a \<open>discord.Embed\<close> the function sets. \<open>discord.Embed\<close> stores the title,
  description and url only when they are not \<open>None\<close>; \<open>add_field\<close> appends one entry.
\<close>

record embed_author =
  author_name :: pystr
  author_link :: "pystr option"

record embed_field =
  shown_name :: pystr
  shown_value :: pystr
  inline :: bool

record discord_embed =
  e_title :: "pystr option"
  e_description :: "pystr option"
  e_url :: "pystr option"
  e_color :: int
  e_author :: "embed_author option"
  e_footer :: "pystr option"
  e_fields :: "embed_field list"

text \<open>\<open>x or None\<close> and \<open>x or zwsp\<close> on a string; truth of an optional string.\<close>

definition or_none :: "pystr \<Rightarrow> pystr option" where
  "or_none s = (if s \<noteq> [] then Some s else None)"

definition or_zwsp :: "pystr \<Rightarrow> pystr" where
  "or_zwsp s = (if s \<noteq> [] then s else zwsp)"

definition opt_truthy :: "pystr option \<Rightarrow> bool" where
  "opt_truthy x = (case x of None \<Rightarrow> False | Some s \<Rightarrow> s \<noteq> [])"

text \<open>The body of \<open>for field in embed_spec["fields"]\<close> after the \<open>continue\<close> test.\<close>

definition render_field :: "field_spec \<Rightarrow> embed_field" where
  "render_field field =
     (let name = field_name field;
          val = field_value field;
          (name, inl) = (if startswith name (ascii ''~'') then (drop 1 name, False)
                         else (name, True))
      in \<lparr>shown_name = or_zwsp name, shown_value = or_zwsp val, inline = inl\<rparr>)"

fun add_fields :: "field_spec list \<Rightarrow> embed_field list \<Rightarrow> embed_field list" where
  "add_fields [] acc = acc"
| "add_fields (field # rest) acc =
     (if field_name field = [] \<and> field_value field = [] then add_fields rest acc
      else add_fields rest (acc @ [render_field field]))"

definition create_discord_embed :: "embed_spec \<Rightarrow> discord_embed" where
  "create_discord_embed spec =
     \<lparr>e_title = or_none (title spec),
      e_description = or_none (description spec),
      e_url = title_url spec,
      e_color = color spec,
      e_author =
        (if opt_truthy (author spec) \<or> opt_truthy (author_url spec)
         then Some \<lparr>author_name = (case author spec of None \<Rightarrow> zwsp | Some s \<Rightarrow> or_zwsp s),
                     author_link = author_url spec\<rparr>
         else None),
      e_footer = (if footer spec \<noteq> [] then Some (footer spec) else None),
      e_fields = add_fields (embed_fields spec) []\<rparr>"

section \<open>Pagination controller: \<open>EmbedNavigationView\<close>\<close>

datatype style = Secondary | Primary | Success

datatype handler = GotoTop | PreviousPage | NextPage | GotoBottom | RefreshData

record button =
  label :: pystr
  button_style :: style
  disabled :: bool
  callback :: "handler option"

text \<open>
  The attributes of the view. \<open>refresh_callback\<close> records whether a callback was
  supplied; what the callback returns when it is awaited is an argument of the
  handler that awaits it. \<open>message\<close> and \<open>on_timeout\<close> are not modelled.
\<close>

record view =
  embeds_spec :: "embed_spec list"
  current_page :: int
  total_pages :: int
  user_id :: nat
  refresh_callback :: bool
  view_items :: "button list"

definition update_buttons :: "view \<Rightarrow> view" where
  "update_buttons v =
     v\<lparr>view_items :=
        [\<lparr>label = ascii ''<<'', button_style = Secondary,
          disabled = (current_page v = 0), callback = Some GotoTop\<rparr>,
         \<lparr>label = ascii ''<'', button_style = Primary,
          disabled = (current_page v = 0), callback = Some PreviousPage\<rparr>,
         \<lparr>label = str_int (current_page v + 1) @ ascii ''/'' @ str_int (total_pages v),
          button_style = Secondary, disabled = True, callback = None\<rparr>,
         \<lparr>label = ascii ''>'', button_style = Primary,
          disabled = (current_page v \<ge> total_pages v - 1), callback = Some NextPage\<rparr>,
         \<lparr>label = ascii ''>>'', button_style = Secondary,
          disabled = (current_page v \<ge> total_pages v - 1), callback = Some GotoBottom\<rparr>]
        @ (if refresh_callback v
           then [\<lparr>label = [128260], button_style = Success,
                  disabled = False, callback = Some RefreshData\<rparr>]
           else [])\<rparr>"

text \<open>\<open>EmbedNavigationView.__init__\<close>.\<close>

definition init_view :: "embed_spec list \<Rightarrow> int \<Rightarrow> nat \<Rightarrow> bool \<Rightarrow> view" where
  "init_view specs page uid cb =
     update_buttons
       \<lparr>embeds_spec = specs, current_page = page, total_pages = int (length specs),
        user_id = uid, refresh_callback = cb, view_items = []\<rparr>"

text \<open>
  The subscript \<open>self.embeds_spec[self.current_page]\<close>: an index from \<open>-len\<close> to \<open>-1\<close>
  selects from the end, and an index outside \<open>-len .. len - 1\<close> raises \<open>IndexError\<close>.
\<close>

definition py_index :: "'a list \<Rightarrow> int \<Rightarrow> py_exc + 'a" where
  "py_index xs i =
     (if 0 \<le> i \<and> i < int (length xs) then Inr (xs ! nat i)
      else if i < 0 \<and> - int (length xs) \<le> i then Inr (xs ! nat (int (length xs) + i))
      else Inl IndexError)"

text \<open>
  What a handler does to the outside, in order. The texts are named:
  \<open>NotYourView\<close> is \<open>"Not your view"\<close>, \<open>RefreshNoData\<close> is
  \<open>"Refresh failed: No data returned"\<close>, \<open>RefreshInvalidJSON\<close> is
  \<open>"Refresh failed: Invalid JSON"\<close>, \<open>RefreshFailed e\<close> is \<open>"Refresh failed: {e}"\<close>,
  and \<open>FetchFailed\<close>, \<open>NoDataProvided\<close>, \<open>ParseFailed\<close>, \<open>NothingToDisplay\<close> are the
  notice embeds of \<open>display_embeds\<close>. Every message is sent ephemeral.
\<close>

datatype notice =
    NotYourView | RefreshNoData | RefreshInvalidJSON | RefreshFailed py_exc
  | FetchFailed | NoDataProvided | ParseFailed | NothingToDisplay

datatype action =
    CallRefreshCallback
  | SendMessage notice
  | Defer
  | EditMessage discord_embed "button list"
  | FollowupNotice notice
  | FollowupEmbed discord_embed "button list"
  | EditOriginalResponse discord_embed "button list"
  | EditOriginalNoData

record outcome =
  view_after :: view
  actions :: "action list"
  raised :: "py_exc option"

text \<open>
  The common tail of the navigation handlers:
  \<open>embed = create_discord_embed(self.embeds_spec[self.current_page])\<close>,
  \<open>self.update_buttons()\<close>, \<open>edit_message(embed=embed, view=self)\<close>.
\<close>

definition show_page :: "view \<Rightarrow> outcome" where
  "show_page v =
     (case py_index (embeds_spec v) (current_page v) of
        Inl e \<Rightarrow> \<lparr>view_after = v, actions = [], raised = Some e\<rparr>
      | Inr spec \<Rightarrow>
          let embed = create_discord_embed spec;
              v' = update_buttons v
          in \<lparr>view_after = v', actions = [EditMessage embed (view_items v')], raised = None\<rparr>)"

definition not_your_view :: "view \<Rightarrow> outcome" where
  "not_your_view v = \<lparr>view_after = v, actions = [SendMessage NotYourView], raised = None\<rparr>"

definition goto_top :: "view \<Rightarrow> nat \<Rightarrow> outcome" where
  "goto_top v uid =
     (if uid \<noteq> user_id v then not_your_view v
      else show_page (v\<lparr>current_page := 0\<rparr>))"

definition previous_page :: "view \<Rightarrow> nat \<Rightarrow> outcome" where
  "previous_page v uid =
     (if uid \<noteq> user_id v then not_your_view v
      else if current_page v > 0 then show_page (v\<lparr>current_page := current_page v - 1\<rparr>)
      else \<lparr>view_after = v, actions = [Defer], raised = None\<rparr>)"

definition next_page :: "view \<Rightarrow> nat \<Rightarrow> outcome" where
  "next_page v uid =
     (if uid \<noteq> user_id v then not_your_view v
      else if current_page v < total_pages v - 1
        then show_page (v\<lparr>current_page := current_page v + 1\<rparr>)
      else \<lparr>view_after = v, actions = [Defer], raised = None\<rparr>)"

definition goto_bottom :: "view \<Rightarrow> nat \<Rightarrow> outcome" where
  "goto_bottom v uid =
     (if uid \<noteq> user_id v then not_your_view v
      else show_page (v\<lparr>current_page := total_pages v - 1\<rparr>))"

text \<open>What awaiting the refresh callback gives: a string or \<open>None\<close>, or an exception.\<close>

datatype fetched = Returned "pystr option" | Raised

text \<open>
  \<open>refresh_data\<close>. Everything after the second \<open>defer\<close> runs inside
  \<open>try ... except Exception\<close>, which turns an exception into a notice; assignments made
  before the exception stay.
\<close>

definition refresh_data :: "pylib \<Rightarrow> view \<Rightarrow> nat \<Rightarrow> fetched \<Rightarrow> outcome" where
  "refresh_data L v uid cb =
     (if uid \<noteq> user_id v then not_your_view v
      else if \<not> refresh_callback v then \<lparr>view_after = v, actions = [Defer], raised = None\<rparr>
      else
        (case cb of
           Raised \<Rightarrow>
             \<lparr>view_after = v,
              actions = [Defer, CallRefreshCallback, FollowupNotice (RefreshFailed CallbackError)],
              raised = None\<rparr>
         | Returned json_string \<Rightarrow>
             if \<not> opt_truthy json_string then
               \<lparr>view_after = v,
                actions = [Defer, CallRefreshCallback, FollowupNotice RefreshNoData],
                raised = None\<rparr>
             else
               (case parse_json_cell L (the json_string) of
                  None \<Rightarrow>
                    \<lparr>view_after = v,
                     actions = [Defer, CallRefreshCallback, FollowupNotice RefreshInvalidJSON],
                     raised = None\<rparr>
                | Some data \<Rightarrow>
                    if data = [] then
                      \<lparr>view_after = v,
                       actions = [Defer, CallRefreshCallback, FollowupNotice RefreshInvalidJSON],
                       raised = None\<rparr>
                    else
                      (case parse_embed_data L data of
                         Inl e \<Rightarrow>
                           \<lparr>view_after = v,
                            actions = [Defer, CallRefreshCallback, FollowupNotice (RefreshFailed e)],
                            raised = None\<rparr>
                       | Inr new_embeds_spec \<Rightarrow>
                           if new_embeds_spec = [] then
                             \<lparr>view_after = v,
                              actions = [Defer, CallRefreshCallback, EditOriginalNoData],
                              raised = None\<rparr>
                           else
                             let v1 = v\<lparr>embeds_spec := new_embeds_spec,
                                        total_pages := int (length new_embeds_spec)\<rparr>;
                                 v2 = (if current_page v1 \<ge> total_pages v1
                                       then v1\<lparr>current_page := total_pages v1 - 1\<rparr> else v1)
                             in (case py_index (embeds_spec v2) (current_page v2) of
                                   Inl e \<Rightarrow>
                                     \<lparr>view_after = v2,
                                      actions = [Defer, CallRefreshCallback,
                                                 FollowupNotice (RefreshFailed e)],
                                      raised = None\<rparr>
                                 | Inr spec \<Rightarrow>
                                     let embed = create_discord_embed spec;
                                         v3 = update_buttons v2
                                     in \<lparr>view_after = v3,
                                         actions = [Defer, CallRefreshCallback,
                                                    EditOriginalResponse embed (view_items v3)],
                                         raised = None\<rparr>)))))"

text \<open>
  The states the specification calls Active: the view holds at least one tile,
  \<open>total_pages\<close> is their number and \<open>current_page\<close> is an index into them.
\<close>

definition active :: "view \<Rightarrow> bool" where
  "active v \<longleftrightarrow>
     embeds_spec v \<noteq> [] \<and> total_pages v = int (length (embeds_spec v)) \<and>
     0 \<le> current_page v \<and> current_page v < total_pages v"

section \<open>Display entry point: \<open>display_embeds\<close> and the \<open>/test\<close> command\<close>

record display =
  shown :: "action list"
  created :: "view option"
  failed :: "py_exc option"

definition notice_only :: "action list \<Rightarrow> notice \<Rightarrow> display" where
  "notice_only pre n = \<lparr>shown = pre @ [FollowupNotice n], created = None, failed = None\<rparr>"

text \<open>
  The body of \<open>display_embeds\<close> from \<open>if not json_string:\<close> on; \<open>pre\<close> is what was done
  before. An exception of \<open>parse_embed_data\<close> is not caught here.
\<close>

definition display_parsed :: "pylib \<Rightarrow> nat \<Rightarrow> action list \<Rightarrow> pystr option \<Rightarrow> bool \<Rightarrow> display" where
  "display_parsed L uid pre json_string has_cb =
     (if \<not> opt_truthy json_string then notice_only pre NoDataProvided
      else
        (case parse_json_cell L (the json_string) of
           None \<Rightarrow> notice_only pre ParseFailed
         | Some data \<Rightarrow>
             if data = [] then notice_only pre ParseFailed
             else
               (case parse_embed_data L data of
                  Inl e \<Rightarrow> \<lparr>shown = pre, created = None, failed = Some e\<rparr>
                | Inr embeds \<Rightarrow>
                    if embeds = [] then notice_only pre NothingToDisplay
                    else
                      (case py_index embeds 0 of
                         Inl e \<Rightarrow> \<lparr>shown = pre, created = None, failed = Some e\<rparr>
                       | Inr spec \<Rightarrow>
                           let embed = create_discord_embed spec;
                               v = init_view embeds 0 uid has_cb
                           in \<lparr>shown = pre @ [FollowupEmbed embed (view_items v)],
                               created = Some v, failed = None\<rparr>))))"

text \<open>
  \<open>display_embeds(interaction, json_string=None, refresh_callback=None)\<close>: \<open>uid\<close> is
  \<open>interaction.user.id\<close>, and \<open>cb\<close> is \<open>None\<close> when no \<open>refresh_callback\<close> is passed and
  otherwise what awaiting the callback gives.
\<close>

definition display_embeds :: "pylib \<Rightarrow> nat \<Rightarrow> pystr option \<Rightarrow> fetched option \<Rightarrow> display" where
  "display_embeds L uid json_string cb =
     (if \<not> opt_truthy json_string \<and> cb \<noteq> None then
        (case the cb of
           Raised \<Rightarrow> notice_only [CallRefreshCallback] FetchFailed
         | Returned fresh \<Rightarrow> display_parsed L uid [CallRefreshCallback] fresh True)
      else display_parsed L uid [] json_string (cb \<noteq> None))"

text \<open>
  Calling a Python function: the names of the parameters in order, and how many of the
  leading ones have no default. A call with \<open>npos\<close> positional arguments and the keyword
  arguments \<open>kws\<close> binds, and otherwise raises \<open>TypeError\<close> before the body runs.
\<close>

record py_def =
  params :: "string list"
  required :: nat

definition binds :: "py_def \<Rightarrow> nat \<Rightarrow> string list \<Rightarrow> bool" where
  "binds f npos kws \<longleftrightarrow>
     npos \<le> length (params f) \<and>
     list_all (\<lambda>k. k \<in> set (params f)) kws \<and>
     list_all (\<lambda>k. k \<notin> set (take npos (params f))) kws \<and>
     list_all (\<lambda>p. p \<in> set (take npos (params f)) \<or> p \<in> set kws) (take (required f) (params f))"

definition display_embeds_def :: py_def where
  "display_embeds_def = \<lparr>params = [''interaction'', ''json_string'', ''refresh_callback''], required = 1\<rparr>"

text \<open>
  \<open>test_command\<close> of the test bot: it defers, then calls
  \<open>display_embeds(interaction, json_string=None, refresh_callback=fetch_sheet_data,
  additional_buttons=add_test_button)\<close>. \<open>sheet\<close> is what \<open>fetch_sheet_data\<close> would return.
\<close>

definition test_command :: "pylib \<Rightarrow> nat \<Rightarrow> pystr option \<Rightarrow> display" where
  "test_command L uid sheet =
     (if binds display_embeds_def 1 [''json_string'', ''refresh_callback'', ''additional_buttons'']
      then (let r = display_embeds L uid None (Some (Returned sheet))
            in r\<lparr>shown := Defer # shown r\<rparr>)
      else \<lparr>shown = [Defer], created = None, failed = Some TypeError\<rparr>)"

section \<open>Sample inputs\<close>

text \<open>
  A decoder that knows five cell texts, for the examples below: the table
  \<open>[["T","D","ftp://x","1","","","F","N1","V1"]]\<close>, the empty table \<open>[]\<close>, the list of a
  scalar \<open>[1]\<close>, the scalar \<open>7\<close> and the text \<open>[[NaN]]\<close>; it rejects every other text. On
  these five it returns what \<open>json.loads\<close> returns, which by default accepts the constants
  \<open>NaN\<close>, \<open>Infinity\<close> and \<open>-Infinity\<close>.
\<close>

definition sample_row :: "json list" where
  "sample_row = [JStr (ascii ''T''), JStr (ascii ''D''), JStr (ascii ''ftp://x''), JStr (ascii ''1''),
                 JStr [], JStr [], JStr (ascii ''F''), JStr (ascii ''N1''), JStr (ascii ''V1'')]"

definition sample_text :: pystr where
  "sample_text = ascii ''[[\"T\",\"D\",\"ftp://x\",\"1\",\"\",\"\",\"F\",\"N1\",\"V1\"]]''"

definition sample_lib :: pylib where
  "sample_lib =
     \<lparr>json_loads = (\<lambda>s. if s = sample_text then Some (JList [JList sample_row])
                         else if s = ascii ''[]'' then Some (JList [])
                         else if s = ascii ''[1]'' then Some (JList [JInt 1])
                         else if s = ascii ''[[NaN]]'' then Some (JList [JList [JFloat NaN]])
                         else if s = ascii ''7'' then Some (JInt 7)
                         else None),
      str_other = (\<lambda>v. ascii ''?''),
      int_of_str = (\<lambda>s. if s = ascii ''1'' then Some 1 else None)\<rparr>"

definition sample_spec :: embed_spec where
  "sample_spec =
     \<lparr>title = ascii ''T'', description = ascii ''D'', title_url = None, color = 1,
      author = None, author_url = None, footer = ascii ''F'',
      embed_fields = [\<lparr>field_name = ascii ''N1'', field_value = ascii ''V1''\<rparr>]\<rparr>"

text \<open>
  Rows and tiles for the examples below: fixed fields at their caps (6400 characters),
  fixed fields of exactly 6000 characters followed by one pair, an empty pair followed by
  a non-empty one (after short fixed fields, and after fixed fields at their caps), links
  with a wrong scheme or a leading space, names that begin with \<open>~\<close>, and a view of
  three tiles at index 1 owned by user 7.
\<close>

definition over_row :: "json list" where
  "over_row = [JStr (replicate 256 65), JStr (replicate 4096 66), JStr [], JStr [], JStr [],
               JStr [], JStr (replicate 2048 70)]"

definition over_spec :: embed_spec where
  "over_spec =
     \<lparr>title = replicate 256 65, description = replicate 4096 66, title_url = None, color = 0,
      author = None, author_url = None, footer = replicate 2048 70, embed_fields = []\<rparr>"



definition sparse_row :: "json list" where
  "sparse_row = [JStr (ascii ''T''), JStr (ascii ''D''), JStr [], JStr [], JStr [], JStr [],
                 JStr (ascii ''F''), JStr [], JStr [], JStr (ascii ''N2''), JStr (ascii ''V2'')]"

definition ftp_row :: "json list" where
  "ftp_row = [JStr (ascii ''T''), JStr (ascii ''D''), JStr (ascii ''ftp://x''), JStr [], JStr [],
              JStr (ascii ''ftp://x''), JStr (ascii ''F'')]"

definition spaced_row :: "json list" where
  "spaced_row = [JStr (ascii ''T''), JStr (ascii ''D''), JStr (ascii '' http://x''), JStr [], JStr [],
                 JStr (ascii '' http://x''), JStr (ascii ''F'')]"

definition spaced_spec :: embed_spec where
  "spaced_spec =
     \<lparr>title = ascii ''T'', description = ascii ''D'', title_url = Some (ascii ''http://x''),
      color = 0, author = None, author_url = Some (ascii ''http://x''), footer = ascii ''F'',
      embed_fields = []\<rparr>"

definition tilde_row :: "json list" where
  "tilde_row = [JStr (ascii ''T''), JStr (ascii ''D''), JStr [], JStr [], JStr [], JStr [],
                JStr (ascii ''F''), JStr (ascii ''~Wide''), JStr (ascii ''V''),
                JStr (ascii ''~''), JStr []]"

definition tilde_spec :: embed_spec where
  "tilde_spec =
     \<lparr>title = ascii ''T'', description = ascii ''D'', title_url = None, color = 0,
      author = None, author_url = None, footer = ascii ''F'',
      embed_fields = [\<lparr>field_name = ascii ''~Wide'', field_value = ascii ''V''\<rparr>,
                      \<lparr>field_name = ascii ''~'', field_value = []\<rparr>]\<rparr>"

definition sample_view :: view where
  "sample_view = init_view [sample_spec, tilde_spec, sample_spec] 1 7 True"

definition over_sparse_row :: "json list" where
  "over_sparse_row = [JStr (replicate 256 65), JStr (replicate 4096 66), JStr [], JStr [], JStr [],
                      JStr [], JStr (replicate 2048 70), JStr [], JStr [],
                      JStr (ascii ''N2''), JStr (ascii ''V2'')]"

section \<open>Properties of the cell parser\<close>

lemma check_rows_None_iff: "check_rows xs = None \<longleftrightarrow> (\<exists>r \<in> set xs. \<not> is_list r)"
  by (induction xs rule: check_rows.induct) auto

lemma check_rows_Some: "check_rows xs = Some rows \<Longrightarrow> xs = map JList rows"
  by (induction xs arbitrary: rows rule: check_rows.induct) auto

text \<open>
  Claim C9, as amended. \<open>parse_json_cell\<close> returns \<open>None\<close> exactly when \<open>json.loads\<close>
  raises, or the decoded value is not a list, or one of its elements is not a list; in
  every other case it returns the decoded table, all rows of it.
\<close>

theorem parse_json_cell_fails_iff:
  "(parse_json_cell L s = None \<longleftrightarrow>
      json_loads L s = None \<or>
      (\<exists>data. json_loads L s = Some data \<and>
         (\<not> is_list data \<or> (\<exists>row \<in> set (list_items data). \<not> is_list row)))) \<and>
   (\<forall>rows. parse_json_cell L s = Some rows \<longrightarrow> json_loads L s = Some (JList (map JList rows)))"
proof (cases "json_loads L s")
  case None
  then show ?thesis by (simp add: parse_json_cell_def)
next
  case (Some data)
  show ?thesis
  proof (cases data)
    case (JList xs)
    with Some show ?thesis
      by (auto simp: parse_json_cell_def check_rows_None_iff dest: check_rows_Some)
  qed (use Some in \<open>simp_all add: parse_json_cell_def\<close>)
qed

theorem parse_json_cell_fails_iff_witness:
  "parse_json_cell sample_lib sample_text = Some [sample_row] \<and>
   json_loads sample_lib sample_text = Some (JList (map JList [sample_row])) \<and>
   parse_json_cell sample_lib (ascii ''7'') = None \<and>
   parse_json_cell sample_lib (ascii ''[1]'') = None \<and>
   parse_json_cell sample_lib (ascii ''oops'') = None"
  using parse_json_cell_fails_iff [of sample_lib sample_text]
    parse_json_cell_fails_iff [of sample_lib "ascii ''7''"]
    parse_json_cell_fails_iff [of sample_lib "ascii ''[1]''"]
    parse_json_cell_fails_iff [of sample_lib "ascii ''oops''"]
  by (simp add: sample_lib_def sample_text_def ascii_def parse_json_cell_def)

subsection \<open>The decoder and the JSON grammar\<close>

lemmas fuel_numeral =
  json_value.simps(2) [of "pred_numeral k", folded numeral_eq_Suc]
  json_elements.simps(2) [of "pred_numeral k", folded numeral_eq_Suc]
  json_members.simps(2) [of "pred_numeral k", folded numeral_eq_Suc]
  for k

lemmas eval_json =
  valid_json_def fuel_numeral ascii_def skip_ws_def json_ws_def startswith_def number_tail_def
  digits1_def is_digit_def is_hex_def Let_def

lemma valid_json_examples:
  "valid_json (ascii ''[]'')" "valid_json (ascii ''[1]'')"
  "valid_json (ascii ''7'')" "\<not> valid_json (ascii ''oops'')"
  "\<not> valid_json (ascii ''[[Infinity]]'')" "\<not> valid_json (ascii ''[1,]'')"
  "\<not> valid_json (ascii ''[01]'')"
  "valid_json (ascii ''[[1e999, -0.5, \"ab\"], {\"k\": [true, false, null]}]'')"
  by (simp_all add: eval_json)

lemma valid_sample_text: "valid_json sample_text"
  by (simp add: sample_text_def eval_json)

text \<open>
  The claim as stated has ``not syntactically valid JSON'' where the code has ``the decoder
  raises''. The text \<open>[[NaN]]\<close> is not valid JSON, yet \<open>json.loads\<close> accepts it and
  \<open>parse_json_cell\<close> returns the table.
\<close>

theorem nan_table_returned:
  "\<not> valid_json (ascii ''[[NaN]]'') \<and>
   parse_json_cell sample_lib (ascii ''[[NaN]]'') = Some [[JFloat NaN]]"
  by (simp add: eval_json parse_json_cell_def sample_lib_def sample_text_def)

section \<open>Properties of the tile builder\<close>

subsection \<open>Rows and tiles\<close>

lemma row_color_Inl:
  "row_color L row = Inl e \<Longrightarrow>
     e = OverflowError \<and> 3 < length row \<and> (row ! 3 = JFloat PosInf \<or> row ! 3 = JFloat NegInf)"
  unfolding row_color_def
  by (cases "(L, row ! 3)" rule: py_int.cases)
     (auto split: if_splits sum.splits py_exc.splits option.splits)

lemma row_embed_Inl: "row_embed L row = Inl e \<longleftrightarrow> row_color L row = Inl e"
  by (auto simp: row_embed_def Let_def split: sum.splits)

lemma embeds_loop_Inr:
  "embeds_loop L data acc = Inr specs \<Longrightarrow>
     \<exists>new. specs = acc @ new \<and>
       list_all2 (\<lambda>row spec. row_embed L row = Inr spec) (filter (\<lambda>row. 7 \<le> length row) data) new"
proof (induction data arbitrary: acc)
  case Nil
  then show ?case by simp
next
  case (Cons row rest)
  show ?case
  proof (cases "length row < 7")
    case True
    with Cons show ?thesis by simp
  next
    case False
    with Cons.prems obtain spec where
      spec: "row_embed L row = Inr spec" and rest: "embeds_loop L rest (acc @ [spec]) = Inr specs"
      by (auto split: sum.splits)
    from Cons.IH [OF rest] obtain new where
      "specs = (acc @ [spec]) @ new"
      "list_all2 (\<lambda>row spec. row_embed L row = Inr spec) (filter (\<lambda>row. 7 \<le> length row) rest) new"
      by blast
    with False spec show ?thesis by (intro exI [of _ "spec # new"]) simp
  qed
qed

text \<open>When the builder returns, its tiles are those of the rows of 7 or more columns, in order.\<close>

lemma parse_embed_data_Inr:
  "parse_embed_data L data = Inr specs \<Longrightarrow>
     list_all2 (\<lambda>row spec. row_embed L row = Inr spec) (filter (\<lambda>row. 7 \<le> length row) data) specs"
  using embeds_loop_Inr [of L data "[]" specs]
  by (auto simp: parse_embed_data_def split: if_splits)

lemma embeds_loop_total:
  "\<forall>row \<in> set data. 7 \<le> length row \<longrightarrow> row ! 3 \<noteq> JFloat PosInf \<and> row ! 3 \<noteq> JFloat NegInf \<Longrightarrow>
     \<exists>specs. embeds_loop L data acc = Inr specs"
proof (induction data arbitrary: acc)
  case Nil
  then show ?case by simp
next
  case (Cons row rest)
  show ?case
  proof (cases "length row < 7")
    case True
    with Cons show ?thesis by simp
  next
    case False
    with Cons.prems have "\<And>e. row_embed L row \<noteq> Inl e"
      by (auto simp: row_embed_Inl dest: row_color_Inl)
    then obtain spec where "row_embed L row = Inr spec"
      by (cases "row_embed L row") auto
    with False Cons show ?thesis by simp
  qed
qed

text \<open>
  The builder returns for every table in which no row of 7 or more columns has an
  infinite float in the colour column.
\<close>

lemma parse_embed_data_total:
  "\<forall>row \<in> set data. 7 \<le> length row \<longrightarrow> row ! 3 \<noteq> JFloat PosInf \<and> row ! 3 \<noteq> JFloat NegInf \<Longrightarrow>
     \<exists>specs. parse_embed_data L data = Inr specs \<and>
       list_all2 (\<lambda>row spec. row_embed L row = Inr spec) (filter (\<lambda>row. 7 \<le> length row) data) specs"
  using embeds_loop_total [of data L "[]"] parse_embed_data_Inr [of L data]
  by (auto simp: parse_embed_data_def)

text \<open>
  Claim C7. Every row of 7 or more columns should yield a tile. On the table
  \<open>[["A","B","",1e999,"","","F"]]\<close>, whose colour cell decodes to the float \<open>inf\<close>,
  \<open>int(row[3])\<close> raises \<open>OverflowError\<close>, which \<open>except (ValueError, TypeError)\<close> does not
  catch: the builder returns no tile list at all.
\<close>

theorem infinite_color_raises:
  "parse_embed_data L [[JStr (ascii ''A''), JStr (ascii ''B''), JStr [], JFloat PosInf,
                        JStr [], JStr [], JStr (ascii ''F'')]] = Inl OverflowError"
  by (simp add: parse_embed_data_def row_embed_def row_color_def Let_def)

subsection \<open>Size limits\<close>

lemmas eval_builder =
  parse_embed_data_def row_embed_def row_color_def validate_url_def fields_loop.simps
  field_step_def all_remaining_empty_def strip_def startswith_def ascii_def isspace_def Let_def

lemma field_step_Append:
  "field_step L row k t = Append f \<Longrightarrow>
     t + field_chars f \<le> 6000 \<and> length (field_name f) \<le> 256 \<and> length (field_value f) \<le> 1024"
  by (auto simp: field_step_def field_chars_def Let_def split: if_splits)

text \<open>
  The pairs the scan emits: at most \<open>25 - k\<close> of them from pair index \<open>k\<close> on, each within
  the name and value caps, and the running total stays at or below 6000 if it started there.
\<close>

lemma fields_loop_append:
  "\<exists>ys. fields_loop L row k t fs = fs @ ys \<and>
        t + sum_list (map field_chars ys) \<le> max t 6000 \<and>
        length ys \<le> 25 - k \<and>
        (\<forall>f \<in> set ys. length (field_name f) \<le> 256 \<and> length (field_value f) \<le> 1024)"
proof (induction L row k t fs rule: fields_loop.induct)
  case (1 L row k t fs)
  show ?case
  proof (cases "k < 25")
    case False
    then show ?thesis by (simp add: fields_loop.simps [of L row k])
  next
    case True
    show ?thesis
    proof (cases "field_step L row k t")
      case Break
      with True show ?thesis by (simp add: fields_loop.simps [of L row k])
    next
      case (Append f)
      from field_step_Append [OF Append] have f:
        "t + field_chars f \<le> 6000" "length (field_name f) \<le> 256" "length (field_value f) \<le> 1024"
        by simp_all
      from "1.IH" [OF True Append] obtain ys where ys:
        "fields_loop L row (Suc k) (t + (length (field_name f) + length (field_value f))) (fs @ [f])
           = (fs @ [f]) @ ys"
        "t + (length (field_name f) + length (field_value f)) + sum_list (map field_chars ys)
           \<le> max (t + (length (field_name f) + length (field_value f))) 6000"
        "length ys \<le> 25 - Suc k"
        "\<forall>f \<in> set ys. length (field_name f) \<le> 256 \<and> length (field_value f) \<le> 1024"
        by blast
      have "fields_loop L row k t fs = fs @ (f # ys)"
        using True Append ys(1) by (simp add: fields_loop.simps [of L row k])
      moreover have "t + sum_list (map field_chars (f # ys)) \<le> max t 6000"
        using ys(2) f(1) by (simp add: field_chars_def)
      moreover have "length (f # ys) \<le> 25 - k"
        using ys(3) True by simp
      moreover have "\<forall>g \<in> set (f # ys). length (field_name g) \<le> 256 \<and> length (field_value g) \<le> 1024"
        using ys(4) f(2,3) by simp
      ultimately show ?thesis by blast
    qed
  qed
qed

text \<open>
  Every tile respects the per-field caps and has at most 25 pairs; its total is at most
  6000 whenever its fixed fields alone are.
\<close>

lemma row_embed_bounds:
  assumes "row_embed L row = Inr spec"
  shows "length (title spec) \<le> 256" "length (description spec) \<le> 4096"
    "length (footer spec) \<le> 2048" "\<forall>s. author spec = Some s \<longrightarrow> length s \<le> 256"
    "length (embed_fields spec) \<le> 25"
    "\<forall>f \<in> set (embed_fields spec). length (field_name f) \<le> 256 \<and> length (field_value f) \<le> 1024"
    "total_chars spec \<le> max (base_chars spec) 6000"
proof -
  obtain c where c: "row_color L row = Inr c"
    using assms by (cases "row_color L row") (auto simp: row_embed_def Let_def)
  define t where "t = (if length row > 0 then take 256 (py_str L (row ! 0)) else [])"
  define d where "d = (if length row > 1 then take 4096 (py_str L (row ! 1)) else [])"
  define a where "a = (if length row > 4 \<and> truthy (row ! 4)
                      then Some (take 256 (py_str L (row ! 4))) else None)"
  define f where "f = (if length row > 6 then take 2048 (py_str L (row ! 6)) else [])"
  define tc where "tc = (case a of None \<Rightarrow> length t + length d + length f
     | Some s \<Rightarrow> if s \<noteq> [] then length t + length d + length f + length s
                 else length t + length d + length f)"
  have spec: "title spec = t" "description spec = d" "author spec = a" "footer spec = f"
    "embed_fields spec = fields_loop L row 0 tc []"
    using assms c by (auto simp: row_embed_def Let_def t_def d_def a_def f_def tc_def)
  have base: "base_chars spec = tc"
    by (auto simp: base_chars_def spec tc_def split: option.splits)
  from fields_loop_append [of L row 0 tc "[]"] obtain ys where ys:
    "fields_loop L row 0 tc [] = ys" "tc + sum_list (map field_chars ys) \<le> max tc 6000"
    "length ys \<le> 25" "\<forall>f \<in> set ys. length (field_name f) \<le> 256 \<and> length (field_value f) \<le> 1024"
    by auto
  show "length (title spec) \<le> 256" "length (description spec) \<le> 4096"
    "length (footer spec) \<le> 2048" "\<forall>s. author spec = Some s \<longrightarrow> length s \<le> 256"
    by (auto simp: spec t_def d_def a_def f_def)
  show "length (embed_fields spec) \<le> 25"
    "\<forall>f \<in> set (embed_fields spec). length (field_name f) \<le> 256 \<and> length (field_value f) \<le> 1024"
    using ys by (simp_all add: spec)
  show "total_chars spec \<le> max (base_chars spec) 6000"
    using ys by (simp add: total_chars_def base spec)
qed

text \<open>
  Claim C1. Every tile should total at most 6000 characters. The cap is only tested when
  a pair is added: a row whose title, description and footer are at their own caps
  (256, 4096 and 2048 characters) gives a tile of 6400 characters.
\<close>

theorem fixed_fields_exceed_6000:
  "parse_embed_data L [over_row] = Inr [over_spec] \<and> total_chars over_spec = 6400"
  by (simp add: eval_builder over_row_def over_spec_def total_chars_def base_chars_def)

subsection \<open>The attachment scan\<close>





text \<open>An empty pair followed by a non-empty one: both are emitted.\<close>

lemma sparse_row_scan:
  "fields_loop L sparse_row 0 3 [] =
     [\<lparr>field_name = [], field_value = []\<rparr>,
      \<lparr>field_name = ascii ''N2'', field_value = ascii ''V2''\<rparr>]"
  by (simp add: eval_builder sparse_row_def)

text \<open>
  The same empty pair after fixed fields of 6400 characters: the scan stops at pair 0 and
  the non-empty pair is not emitted.
\<close>

lemma over_sparse_row_scan:
  "parse_embed_data L [over_sparse_row] = Inr [over_spec]"
  by (simp add: eval_builder over_sparse_row_def over_spec_def)

subsection \<open>Links\<close>

lemma validate_url_None:
  "\<not> startswith (strip s) (ascii ''http://'') \<Longrightarrow> \<not> startswith (strip s) (ascii ''https://'') \<Longrightarrow>
     validate_url L (JStr s) = None"
  by (simp add: validate_url_def Let_def)

lemma row_embed_urls:
  "row_embed L row = Inr spec \<Longrightarrow> 7 \<le> length row \<Longrightarrow>
     title_url spec = validate_url L (row ! 2) \<and> author_url spec = validate_url L (row ! 5)"
  by (auto simp: row_embed_def Let_def split: sum.splits)

text \<open>
  Claim C8, as amended. A string in the title-link or author-link column whose text, after
  \<open>strip()\<close>, starts with neither \<open>http://\<close> nor \<open>https://\<close> gives an absent link in the
  tile of that row.
\<close>

theorem invalid_link_absent:
  assumes "parse_embed_data L data = Inr specs" and "i < length specs"
    and "\<not> startswith (strip s) (ascii ''http://'')"
    and "\<not> startswith (strip s) (ascii ''https://'')"
  shows "(filter (\<lambda>row. 7 \<le> length row) data ! i ! 2 = JStr s \<longrightarrow> title_url (specs ! i) = None) \<and>
         (filter (\<lambda>row. 7 \<le> length row) data ! i ! 5 = JStr s \<longrightarrow> author_url (specs ! i) = None)"
proof -
  let ?rows = "filter (\<lambda>row. 7 \<le> length row) data"
  have all2: "list_all2 (\<lambda>row spec. row_embed L row = Inr spec) ?rows specs"
    by (rule parse_embed_data_Inr [OF assms(1)])
  then have len: "length ?rows = length specs"
    by (rule list_all2_lengthD)
  with assms(2) have i: "i < length ?rows" by simp
  from all2 assms(2) have emb: "row_embed L (?rows ! i) = Inr (specs ! i)"
    by (simp add: list_all2_conv_all_nth)
  from i have "?rows ! i \<in> set ?rows" by (rule nth_mem)
  then have "7 \<le> length (?rows ! i)" by simp
  from row_embed_urls [OF emb this] show ?thesis
    using assms(3,4) by (auto simp: validate_url_None)
qed

theorem invalid_link_absent_witness:
  "parse_embed_data sample_lib [ftp_row] = Inr [sample_spec\<lparr>color := 0, embed_fields := []\<rparr>] \<and>
   filter (\<lambda>row. 7 \<le> length row) [ftp_row] ! 0 ! 2 = JStr (ascii ''ftp://x'') \<and>
   filter (\<lambda>row. 7 \<le> length row) [ftp_row] ! 0 ! 5 = JStr (ascii ''ftp://x'') \<and>
   title_url ([sample_spec\<lparr>color := 0, embed_fields := []\<rparr>] ! 0) = None \<and>
   author_url ([sample_spec\<lparr>color := 0, embed_fields := []\<rparr>] ! 0) = None"
  using invalid_link_absent [of sample_lib "[ftp_row]" "[sample_spec\<lparr>color := 0, embed_fields := []\<rparr>]"
      0 "ascii ''ftp://x''"]
  by (simp add: eval_builder ftp_row_def sample_spec_def)

text \<open>
  The claim as stated tests the cell itself. \<open>" http://x"\<close> does not start with
  \<open>http://\<close>, yet \<open>validate_url\<close> strips it first and keeps \<open>"http://x"\<close> as the link.
\<close>

theorem leading_space_link_kept:
  "ascii '' http://x'' \<noteq> [] \<and>
   \<not> startswith (ascii '' http://x'') (ascii ''http://'') \<and>
   \<not> startswith (ascii '' http://x'') (ascii ''https://'') \<and>
   spaced_row ! 2 = JStr (ascii '' http://x'') \<and> spaced_row ! 5 = JStr (ascii '' http://x'') \<and>
   parse_embed_data sample_lib [spaced_row] = Inr [spaced_spec] \<and>
   title_url spaced_spec = Some (ascii ''http://x'') \<and>
   author_url spaced_spec = Some (ascii ''http://x'')"
  by (simp add: eval_builder spaced_row_def spaced_spec_def)

section \<open>Properties of the tile renderer\<close>

lemma add_fields_eq:
  "add_fields fs acc =
     acc @ map render_field (filter (\<lambda>f. \<not> (field_name f = [] \<and> field_value f = [])) fs)"
  by (induction fs arbitrary: acc) auto

text \<open>The rendered fields: the pairs that are not completely empty, in order.\<close>

lemma e_fields_create:
  "e_fields (create_discord_embed spec) =
     map render_field (filter (\<lambda>f. \<not> (field_name f = [] \<and> field_value f = [])) (embed_fields spec))"
  by (simp add: create_discord_embed_def add_fields_eq)

lemma tilde_parse: "parse_embed_data sample_lib [tilde_row] = Inr [tilde_spec]"
  by (simp add: eval_builder tilde_row_def tilde_spec_def)

lemma field_step_Append_eq:
  "field_step L row k t = Append f \<Longrightarrow>
     f = \<lparr>field_name = take 256 (py_str L (row ! (7 + k * 2))),
          field_value = take 1024 (if 8 + k * 2 < length row
                                   then py_str L (row ! (8 + k * 2)) else [])\<rparr>"
  by (auto simp: field_step_def Let_def split: if_splits)

text \<open>
  The pairs the scan emits are those of consecutive pair indices: the texts of the name
  and value cells, cut to 256 and 1024 characters and otherwise unchanged.
\<close>

lemma fields_loop_pairs:
  "\<exists>ys. fields_loop L row k t fs = fs @ ys \<and>
        (\<forall>j < length ys.
           ys ! j = \<lparr>field_name = take 256 (py_str L (row ! (7 + (k + j) * 2))),
                     field_value = take 1024 (if 8 + (k + j) * 2 < length row
                                              then py_str L (row ! (8 + (k + j) * 2)) else [])\<rparr>)"
proof (induction L row k t fs rule: fields_loop.induct)
  case (1 L row k t fs)
  show ?case
  proof (cases "k < 25")
    case False
    then show ?thesis by (simp add: fields_loop.simps [of L row k])
  next
    case True
    show ?thesis
    proof (cases "field_step L row k t")
      case Break
      with True show ?thesis by (simp add: fields_loop.simps [of L row k])
    next
      case (Append f)
      note f = field_step_Append_eq [OF Append]
      from "1.IH" [OF True Append] obtain ys where ys:
        "fields_loop L row (Suc k) (t + (length (field_name f) + length (field_value f))) (fs @ [f])
           = (fs @ [f]) @ ys"
        "\<forall>j < length ys.
           ys ! j = \<lparr>field_name = take 256 (py_str L (row ! (7 + (Suc k + j) * 2))),
                     field_value = take 1024 (if 8 + (Suc k + j) * 2 < length row
                                              then py_str L (row ! (8 + (Suc k + j) * 2)) else [])\<rparr>"
        by blast
      have eq: "fields_loop L row k t fs = fs @ (f # ys)"
        using True Append ys(1) by (simp add: fields_loop.simps [of L row k])
      have "(f # ys) ! j = \<lparr>field_name = take 256 (py_str L (row ! (7 + (k + j) * 2))),
                     field_value = take 1024 (if 8 + (k + j) * 2 < length row
                                              then py_str L (row ! (8 + (k + j) * 2)) else [])\<rparr>"
        if "j < length (f # ys)" for j
      proof (cases j)
        case 0
        with f show ?thesis by simp
      next
        case (Suc i)
        with that have "i < length ys" by simp
        with ys(2) Suc show ?thesis by simp
      qed
      with eq show ?thesis by blast
    qed
  qed
qed

lemma row_embed_field_name:
  assumes "row_embed L row = Inr spec" and "k < length (embed_fields spec)"
  shows "field_name (embed_fields spec ! k) = take 256 (py_str L (row ! (7 + k * 2)))"
proof -
  from assms(1) obtain t where t: "embed_fields spec = fields_loop L row 0 t []"
    by (auto simp: row_embed_def Let_def split: sum.splits)
  from fields_loop_pairs [of L row 0 t "[]"] obtain ys where
    "fields_loop L row 0 t [] = ys"
    "\<forall>j < length ys.
       ys ! j = \<lparr>field_name = take 256 (py_str L (row ! (7 + (0 + j) * 2))),
                 field_value = take 1024 (if 8 + (0 + j) * 2 < length row
                                          then py_str L (row ! (8 + (0 + j) * 2)) else [])\<rparr>"
    by auto
  with t assms(2) show ?thesis by simp
qed

lemma startswith_take:
  "startswith s (ascii ''~'') \<Longrightarrow> startswith (take 256 s) (ascii ''~'')"
  by (simp add: startswith_def ascii_def min_def)

text \<open>
  Claim C3, as amended. When the name cell of an attachment begins with \<open>~\<close>, the tile
  carries that name (cut to 256 characters) with its \<open>~\<close> and no flag, and
  \<open>create_discord_embed\<close> renders the pair full-width (\<open>inline=False\<close>) with the leading
  \<open>~\<close> removed from the displayed name; a name of exactly \<open>"~"\<close> is displayed as the
  zero-width placeholder.
\<close>

theorem tilde_rendered_full_width:
  assumes "parse_embed_data L data = Inr specs" and "i < length specs"
    and "row = filter (\<lambda>row. 7 \<le> length row) data ! i"
    and "k < length (embed_fields (specs ! i))"
    and "startswith (py_str L (row ! (7 + k * 2))) (ascii ''~'')"
  shows "field_name (embed_fields (specs ! i) ! k) = take 256 (py_str L (row ! (7 + k * 2))) \<and>
         startswith (field_name (embed_fields (specs ! i) ! k)) (ascii ''~'') \<and>
         render_field (embed_fields (specs ! i) ! k)
           \<in> set (e_fields (create_discord_embed (specs ! i))) \<and>
         inline (render_field (embed_fields (specs ! i) ! k)) = False \<and>
         shown_name (render_field (embed_fields (specs ! i) ! k))
           = or_zwsp (drop 1 (take 256 (py_str L (row ! (7 + k * 2))))) \<and>
         shown_value (render_field (embed_fields (specs ! i) ! k))
           = or_zwsp (field_value (embed_fields (specs ! i) ! k)) \<and>
         (py_str L (row ! (7 + k * 2)) = ascii ''~'' \<longrightarrow>
            field_name (embed_fields (specs ! i) ! k) = ascii ''~'' \<and>
            shown_name (render_field (embed_fields (specs ! i) ! k)) = zwsp)"
proof -
  let ?rows = "filter (\<lambda>row. 7 \<le> length row) data"
  let ?f = "embed_fields (specs ! i) ! k"
  have all2: "list_all2 (\<lambda>row spec. row_embed L row = Inr spec) ?rows specs"
    by (rule parse_embed_data_Inr [OF assms(1)])
  with assms(2,3) have emb: "row_embed L row = Inr (specs ! i)"
    by (simp add: list_all2_conv_all_nth)
  have name: "field_name ?f = take 256 (py_str L (row ! (7 + k * 2)))"
    by (rule row_embed_field_name [OF emb assms(4)])
  have sw: "startswith (field_name ?f) (ascii ''~'')"
    unfolding name by (rule startswith_take [OF assms(5)])
  then have ne: "field_name ?f \<noteq> []"
    by (auto simp: startswith_def ascii_def)
  from assms(4) have "?f \<in> set (embed_fields (specs ! i))"
    by (rule nth_mem)
  with ne have mem: "render_field ?f \<in> set (e_fields (create_discord_embed (specs ! i)))"
    by (auto simp: e_fields_create)
  from sw have r: "inline (render_field ?f) = False"
    "shown_name (render_field ?f) = or_zwsp (drop 1 (field_name ?f))"
    "shown_value (render_field ?f) = or_zwsp (field_value ?f)"
    by (simp_all add: render_field_def Let_def)
  have one: "field_name ?f = ascii ''~'' \<and> shown_name (render_field ?f) = zwsp"
    if "py_str L (row ! (7 + k * 2)) = ascii ''~''"
    using that r(2) name by (simp add: ascii_def or_zwsp_def)
  have r2: "shown_name (render_field ?f) = or_zwsp (drop 1 (take 256 (py_str L (row ! (7 + k * 2)))))"
    by (simp only: r(2) name)
  from name sw mem r(1) r2 r(3) one show ?thesis by blast
qed

theorem tilde_rendered_full_width_witness:
  "parse_embed_data sample_lib [tilde_row] = Inr [tilde_spec] \<and>
   (0::nat) < length [tilde_spec] \<and>
   tilde_row = filter (\<lambda>row. 7 \<le> length row) [tilde_row] ! 0 \<and>
   (1::nat) < length (embed_fields ([tilde_spec] ! 0)) \<and>
   py_str sample_lib (tilde_row ! (7 + 1 * 2)) = ascii ''~'' \<and>
   startswith (py_str sample_lib (tilde_row ! (7 + 1 * 2))) (ascii ''~'') \<and>
   field_name (embed_fields ([tilde_spec] ! 0) ! 1) = ascii ''~'' \<and>
   inline (render_field (embed_fields ([tilde_spec] ! 0) ! 1)) = False \<and>
   shown_name (render_field (embed_fields ([tilde_spec] ! 0) ! 1)) = zwsp \<and>
   render_field (embed_fields ([tilde_spec] ! 0) ! 1)
     \<in> set (e_fields (create_discord_embed ([tilde_spec] ! 0)))"
proof -
  have h: "(0::nat) < length [tilde_spec]"
    "tilde_row = filter (\<lambda>row. 7 \<le> length row) [tilde_row] ! 0"
    "(1::nat) < length (embed_fields ([tilde_spec] ! 0))"
    "py_str sample_lib (tilde_row ! (7 + 1 * 2)) = ascii ''~''"
    by (simp_all add: tilde_row_def tilde_spec_def)
  have sw: "startswith (py_str sample_lib (tilde_row ! (7 + 1 * 2))) (ascii ''~'')"
    unfolding h(4) by (simp add: startswith_def)
  note w = tilde_rendered_full_width [OF tilde_parse h(1) h(2) h(3) sw]
  from w h(4) have c:
    "field_name (embed_fields ([tilde_spec] ! 0) ! 1) = ascii ''~''"
    "inline (render_field (embed_fields ([tilde_spec] ! 0) ! 1)) = False"
    "shown_name (render_field (embed_fields ([tilde_spec] ! 0) ! 1)) = zwsp"
    "render_field (embed_fields ([tilde_spec] ! 0) ! 1)
       \<in> set (e_fields (create_discord_embed ([tilde_spec] ! 0)))"
    by blast+
  show ?thesis
    by (intro conjI tilde_parse h sw c)
qed

text \<open>
  The claim as stated puts the flag in the tile: the tile built from a row with the names
  \<open>"~Wide"\<close> and \<open>"~"\<close> still has both names with their \<open>~\<close>.
\<close>

theorem tilde_kept_in_spec:
  "parse_embed_data sample_lib [tilde_row] = Inr [tilde_spec] \<and>
   map field_name (embed_fields tilde_spec) = [ascii ''~Wide'', ascii ''~''] \<and>
   startswith (ascii ''~Wide'') (ascii ''~'')"
  by (simp add: tilde_parse) (simp add: tilde_spec_def startswith_def ascii_def)

section \<open>Properties of the pagination controller\<close>

lemma update_buttons_simps [simp]:
  "embeds_spec (update_buttons v) = embeds_spec v"
  "current_page (update_buttons v) = current_page v"
  "total_pages (update_buttons v) = total_pages v"
  "user_id (update_buttons v) = user_id v"
  "refresh_callback (update_buttons v) = refresh_callback v"
  by (simp_all add: update_buttons_def)

lemma active_update_buttons [simp]: "active (update_buttons v) = active v"
  by (simp add: active_def)

lemma show_page_ok:
  assumes "0 \<le> current_page v" and "current_page v < int (length (embeds_spec v))"
  shows "show_page v =
     \<lparr>view_after = update_buttons v,
      actions = [EditMessage (create_discord_embed (embeds_spec v ! nat (current_page v)))
                   (view_items (update_buttons v))],
      raised = None\<rparr>"
  using assms by (simp add: show_page_def py_index_def Let_def)

lemma active_init_view: "specs \<noteq> [] \<Longrightarrow> active (init_view specs 0 uid cb)"
  by (simp add: init_view_def active_def)

text \<open>Every handler keeps an Active view Active, whoever triggers it.\<close>

lemma active_goto_top: "active v \<Longrightarrow> active (view_after (goto_top v uid))"
  by (simp add: goto_top_def not_your_view_def show_page_ok active_def)

lemma active_previous_page: "active v \<Longrightarrow> active (view_after (previous_page v uid))"
  by (simp add: previous_page_def not_your_view_def show_page_ok active_def)

lemma active_next_page: "active v \<Longrightarrow> active (view_after (next_page v uid))"
  by (simp add: next_page_def not_your_view_def show_page_ok active_def)

lemma active_goto_bottom: "active v \<Longrightarrow> active (view_after (goto_bottom v uid))"
  by (simp add: goto_bottom_def not_your_view_def show_page_ok active_def)

lemma sample_view_fields:
  "embeds_spec sample_view = [sample_spec, tilde_spec, sample_spec]"
  "current_page sample_view = 1" "total_pages sample_view = 3" "user_id sample_view = 7"
  "refresh_callback sample_view"
  by (simp_all add: sample_view_def init_view_def)

lemma sample_view_active: "active sample_view"
  by (simp add: active_def sample_view_fields)

text \<open>
  Claim C4. In an Active view holding \<open>n\<close> tiles at index \<open>i\<close>, the owner's Next gives
  \<open>min (i + 1) (n - 1)\<close>, Prev gives \<open>max (i - 1) 0\<close>, First gives \<open>0\<close> and Last gives \<open>n - 1\<close>;
  Prev at index 0 and Next at index \<open>n - 1\<close> only acknowledge the event and leave the view
  as it is. No handler changes the tiles or raises.
\<close>

theorem navigation_clamps:
  assumes "active v" and "n = int (length (embeds_spec v))" and "i = current_page v"
  shows "0 \<le> i \<and> i < n \<and>
     current_page (view_after (next_page v (user_id v))) = min (i + 1) (n - 1) \<and>
     current_page (view_after (previous_page v (user_id v))) = max (i - 1) 0 \<and>
     current_page (view_after (goto_top v (user_id v))) = 0 \<and>
     current_page (view_after (goto_bottom v (user_id v))) = n - 1 \<and>
     (i = 0 \<longrightarrow> previous_page v (user_id v) = \<lparr>view_after = v, actions = [Defer], raised = None\<rparr>) \<and>
     (i = n - 1 \<longrightarrow> next_page v (user_id v) = \<lparr>view_after = v, actions = [Defer], raised = None\<rparr>) \<and>
     embeds_spec (view_after (next_page v (user_id v))) = embeds_spec v \<and>
     embeds_spec (view_after (previous_page v (user_id v))) = embeds_spec v \<and>
     embeds_spec (view_after (goto_top v (user_id v))) = embeds_spec v \<and>
     embeds_spec (view_after (goto_bottom v (user_id v))) = embeds_spec v \<and>
     raised (next_page v (user_id v)) = None \<and> raised (previous_page v (user_id v)) = None \<and>
     raised (goto_top v (user_id v)) = None \<and> raised (goto_bottom v (user_id v)) = None"
proof -
  from assms have a: "0 \<le> i" "i < n" "total_pages v = n" "current_page v = i"
    "n = int (length (embeds_spec v))" "0 < int (length (embeds_spec v))"
    "int (length (embeds_spec v)) - 1 < int (length (embeds_spec v))"
    "0 \<le> int (length (embeds_spec v)) - 1"
    by (simp_all add: active_def)
  have nxt: "current_page (view_after (next_page v (user_id v))) = min (i + 1) (n - 1)"
    "embeds_spec (view_after (next_page v (user_id v))) = embeds_spec v"
    "raised (next_page v (user_id v)) = None"
    "i = n - 1 \<longrightarrow> next_page v (user_id v) = \<lparr>view_after = v, actions = [Defer], raised = None\<rparr>"
    using a by (simp_all add: next_page_def show_page_ok)
  have prv: "current_page (view_after (previous_page v (user_id v))) = max (i - 1) 0"
    "embeds_spec (view_after (previous_page v (user_id v))) = embeds_spec v"
    "raised (previous_page v (user_id v)) = None"
    "i = 0 \<longrightarrow> previous_page v (user_id v) = \<lparr>view_after = v, actions = [Defer], raised = None\<rparr>"
    using a by (simp_all add: previous_page_def show_page_ok)
  have top: "current_page (view_after (goto_top v (user_id v))) = 0"
    "embeds_spec (view_after (goto_top v (user_id v))) = embeds_spec v"
    "raised (goto_top v (user_id v)) = None"
    using a by (simp_all add: goto_top_def show_page_ok)
  have bot: "current_page (view_after (goto_bottom v (user_id v))) = n - 1"
    "embeds_spec (view_after (goto_bottom v (user_id v))) = embeds_spec v"
    "raised (goto_bottom v (user_id v)) = None"
    using a by (simp_all add: goto_bottom_def show_page_ok)
  show ?thesis
    using a(1,2) nxt prv top bot by simp
qed

theorem navigation_clamps_witness:
  "active sample_view \<and>
   current_page (view_after (next_page sample_view 7)) = 2 \<and>
   current_page (view_after (previous_page sample_view 7)) = 0 \<and>
   current_page (view_after (goto_top sample_view 7)) = 0 \<and>
   current_page (view_after (goto_bottom sample_view 7)) = 2"
  using navigation_clamps [OF sample_view_active, of 3 1] sample_view_active
  by (simp add: sample_view_fields)

text \<open>
  Claim C6. A navigation or refresh event from anyone but the owner leaves the view as it
  is, sends the notice and raises nothing.
\<close>

theorem non_owner_rejected:
  assumes "uid \<noteq> user_id v"
  shows "goto_top v uid = \<lparr>view_after = v, actions = [SendMessage NotYourView], raised = None\<rparr> \<and>
     previous_page v uid = \<lparr>view_after = v, actions = [SendMessage NotYourView], raised = None\<rparr> \<and>
     next_page v uid = \<lparr>view_after = v, actions = [SendMessage NotYourView], raised = None\<rparr> \<and>
     goto_bottom v uid = \<lparr>view_after = v, actions = [SendMessage NotYourView], raised = None\<rparr> \<and>
     refresh_data L v uid cb = \<lparr>view_after = v, actions = [SendMessage NotYourView], raised = None\<rparr>"
  using assms
  by (simp add: goto_top_def previous_page_def next_page_def goto_bottom_def refresh_data_def
      not_your_view_def)

theorem non_owner_rejected_witness:
  "(8::nat) \<noteq> user_id sample_view \<and>
   view_after (next_page sample_view 8) = sample_view \<and>
   view_after (goto_bottom sample_view 8) = sample_view \<and>
   view_after (refresh_data sample_lib sample_view 8 (Returned (Some sample_text))) = sample_view \<and>
   actions (refresh_data sample_lib sample_view 8 (Returned (Some sample_text))) = [SendMessage NotYourView]"
proof -
  have ne: "(8::nat) \<noteq> user_id sample_view" by (simp add: sample_view_fields)
  from ne non_owner_rejected [OF ne, of sample_lib "Returned (Some sample_text)"]
  show ?thesis by simp
qed

subsection \<open>Refresh\<close>

lemma sample_cell: "parse_json_cell sample_lib sample_text = Some [sample_row]"
  by (simp add: parse_json_cell_def sample_lib_def)

lemma sample_parse: "parse_embed_data sample_lib [sample_row] = Inr [sample_spec]"
  by (simp add: eval_builder sample_row_def sample_spec_def sample_lib_def)

lemma sample_text_nonempty: "sample_text \<noteq> []"
  by (simp add: sample_text_def ascii_def)

lemma parse_embed_data_Nil: "parse_embed_data L [] = Inr []"
  by (simp add: parse_embed_data_def)

lemma refresh_success:
  assumes "uid = user_id v" and "refresh_callback v" and "s \<noteq> []"
    and "parse_json_cell L s = Some data" and "parse_embed_data L data = Inr new" and "new \<noteq> []"
  shows "embeds_spec (view_after (refresh_data L v uid (Returned (Some s)))) = new"
    and "total_pages (view_after (refresh_data L v uid (Returned (Some s)))) = int (length new)"
    and "current_page (view_after (refresh_data L v uid (Returned (Some s))))
           = min (current_page v) (int (length new) - 1)"
    and "raised (refresh_data L v uid (Returned (Some s))) = None"
proof -
  from assms(5,6) have d: "data \<noteq> []"
    by (auto simp: parse_embed_data_Nil)
  show "embeds_spec (view_after (refresh_data L v uid (Returned (Some s)))) = new"
    "total_pages (view_after (refresh_data L v uid (Returned (Some s)))) = int (length new)"
    "current_page (view_after (refresh_data L v uid (Returned (Some s))))
           = min (current_page v) (int (length new) - 1)"
    "raised (refresh_data L v uid (Returned (Some s))) = None"
    using assms d
    by (simp_all add: refresh_data_def opt_truthy_def Let_def split: sum.splits)
qed

lemma refresh_failure:
  assumes "uid = user_id v" and "refresh_callback v"
    and "cb = Raised \<or> cb = Returned None \<or> cb = Returned (Some []) \<or>
         (\<exists>s. cb = Returned (Some s) \<and> parse_json_cell L s = None)"
  shows "view_after (refresh_data L v uid cb) = v"
  using assms
  by (auto simp: refresh_data_def opt_truthy_def)

text \<open>
  The remaining outcomes of a refresh also keep the view: an empty table, an exception of
  the tile builder, and a table without any row of 7 columns.
\<close>

lemma refresh_no_tiles:
  assumes "uid = user_id v" and "refresh_callback v" and "parse_json_cell L s = Some data"
    and "data = [] \<or> (\<exists>e. parse_embed_data L data = Inl e) \<or> parse_embed_data L data = Inr []"
  shows "view_after (refresh_data L v uid (Returned (Some s))) = v"
  using assms
  by (auto simp: refresh_data_def opt_truthy_def)

text \<open>
  Claim C5. For a refresh by the owner of a view that has a refresh callback: when the
  callback raises, returns \<open>None\<close> or an empty string, or returns text that
  \<open>parse_json_cell\<close> rejects, the view is unchanged; when it returns text that parses to
  a non-empty tile list, the tiles are replaced by that list and the index becomes
  \<open>min\<close> of the old index and the new length minus one.
\<close>

theorem refresh_replaces_or_keeps:
  assumes "uid = user_id v" and "refresh_callback v"
  shows "(cb = Raised \<or> cb = Returned None \<or> cb = Returned (Some []) \<or>
          (\<exists>s. cb = Returned (Some s) \<and> parse_json_cell L s = None)
            \<longrightarrow> view_after (refresh_data L v uid cb) = v) \<and>
         (\<forall>s data new.
            cb = Returned (Some s) \<and> s \<noteq> [] \<and> parse_json_cell L s = Some data \<and>
            parse_embed_data L data = Inr new \<and> new \<noteq> []
            \<longrightarrow> embeds_spec (view_after (refresh_data L v uid cb)) = new \<and>
                current_page (view_after (refresh_data L v uid cb))
                  = min (current_page v) (int (length new) - 1))"
proof (intro conjI impI allI)
  assume "cb = Raised \<or> cb = Returned None \<or> cb = Returned (Some []) \<or>
          (\<exists>s. cb = Returned (Some s) \<and> parse_json_cell L s = None)"
  then show "view_after (refresh_data L v uid cb) = v"
    by (rule refresh_failure [OF assms])
next
  fix s data new
  assume h: "cb = Returned (Some s) \<and> s \<noteq> [] \<and> parse_json_cell L s = Some data \<and>
            parse_embed_data L data = Inr new \<and> new \<noteq> []"
  then have cb: "cb = Returned (Some s)" and s: "s \<noteq> []"
    and d: "parse_json_cell L s = Some data" and n: "parse_embed_data L data = Inr new"
    and ne: "new \<noteq> []"
    by simp_all
  show "embeds_spec (view_after (refresh_data L v uid cb)) = new"
    unfolding cb by (rule refresh_success(1) [OF assms s d n ne])
  show "current_page (view_after (refresh_data L v uid cb)) = min (current_page v) (int (length new) - 1)"
    unfolding cb by (rule refresh_success(3) [OF assms s d n ne])
qed

theorem refresh_replaces_or_keeps_witness:
  "(7::nat) = user_id sample_view \<and> refresh_callback sample_view \<and>
   parse_json_cell sample_lib sample_text = Some [sample_row] \<and>
   parse_embed_data sample_lib [sample_row] = Inr [sample_spec] \<and>
   current_page sample_view = 1 \<and>
   embeds_spec (view_after (refresh_data sample_lib sample_view 7 (Returned (Some sample_text))))
     = [sample_spec] \<and>
   current_page (view_after (refresh_data sample_lib sample_view 7 (Returned (Some sample_text)))) = 0 \<and>
   parse_json_cell sample_lib (ascii ''oops'') = None \<and>
   view_after (refresh_data sample_lib sample_view 7 (Returned (Some (ascii ''oops'')))) = sample_view \<and>
   view_after (refresh_data sample_lib sample_view 7 (Returned None)) = sample_view"
proof -
  have o: "(7::nat) = user_id sample_view" and r: "refresh_callback sample_view"
    by (simp_all add: sample_view_fields)
  have bad: "parse_json_cell sample_lib (ascii ''oops'') = None"
    by (simp add: parse_json_cell_def sample_lib_def sample_text_def ascii_def)
  have ne: "[sample_spec] \<noteq> []" by simp
  note w1 = refresh_replaces_or_keeps [OF o r, of "Returned (Some sample_text)" sample_lib]
  note w2 = refresh_replaces_or_keeps [OF o r, of "Returned (Some (ascii ''oops''))" sample_lib]
  note w3 = refresh_replaces_or_keeps [OF o r, of "Returned None" sample_lib]
  from w1 sample_cell sample_parse sample_text_nonempty ne
  have a0: "embeds_spec (view_after (refresh_data sample_lib sample_view 7 (Returned (Some sample_text))))
       = [sample_spec] \<and>
     current_page (view_after (refresh_data sample_lib sample_view 7 (Returned (Some sample_text))))
       = min (current_page sample_view) (int (length [sample_spec]) - 1)"
    by blast
  then have a: "embeds_spec (view_after (refresh_data sample_lib sample_view 7 (Returned (Some sample_text))))
     = [sample_spec]"
    "current_page (view_after (refresh_data sample_lib sample_view 7 (Returned (Some sample_text)))) = 0"
    by (simp_all add: sample_view_fields(2))
  from w2 bad
  have b: "view_after (refresh_data sample_lib sample_view 7 (Returned (Some (ascii ''oops'')))) = sample_view"
    by blast
  from w3
  have c: "view_after (refresh_data sample_lib sample_view 7 (Returned None)) = sample_view"
    by blast
  show ?thesis
    by (intro conjI o r sample_cell sample_parse sample_view_fields(2) a bad b c)
qed

section \<open>Properties of the display entry point\<close>

text \<open>The call the module's docstring shows binds.\<close>

lemma binds_documented_call:
  "binds display_embeds_def 1 [''json_string'', ''refresh_callback'']"
  by (simp add: binds_def display_embeds_def_def)

text \<open>
  Claim C10. \<open>display_embeds\<close> has exactly the parameters \<open>interaction\<close>, \<open>json_string\<close>
  and \<open>refresh_callback\<close>; the call in \<open>test_command\<close> passes the keyword
  \<open>additional_buttons\<close> as well and does not bind, so the command raises \<open>TypeError\<close>
  after its \<open>defer\<close> and before the callback is called or anything is sent.
\<close>

theorem test_command_raises:
  "params display_embeds_def = [''interaction'', ''json_string'', ''refresh_callback''] \<and>
   \<not> binds display_embeds_def 1 [''json_string'', ''refresh_callback'', ''additional_buttons''] \<and>
   test_command L uid sheet = \<lparr>shown = [Defer], created = None, failed = Some TypeError\<rparr>"
  by (simp add: test_command_def binds_def display_embeds_def_def)

section \<open>The Active invariant\<close>

text \<open>A refresh keeps an Active view Active, whatever the callback gives.\<close>

lemma active_refresh_data:
  assumes "active v"
  shows "active (view_after (refresh_data L v uid cb))"
  using assms
  by (auto simp: refresh_data_def not_your_view_def active_def Let_def
      split: fetched.splits option.splits sum.splits)

lemma display_parsed_active:
  "created (display_parsed L uid pre js has_cb) = Some v \<Longrightarrow>
     active v \<and> current_page v = 0 \<and> user_id v = uid"
  by (auto simp: display_parsed_def notice_only_def init_view_def active_def Let_def
      split: if_splits option.splits sum.splits)

text \<open>The view \<open>display_embeds\<close> creates is Active, at page 0 and owned by the invoker.\<close>

lemma display_embeds_active:
  "created (display_embeds L uid js cb) = Some v \<Longrightarrow>
     active v \<and> current_page v = 0 \<and> user_id v = uid"
  by (auto simp: display_embeds_def notice_only_def dest: display_parsed_active
      split: if_splits fetched.splits)

end
